theory Spec2Isabelle
  imports Complex_Main "HOL-Library.AList" "HOL-Library.Sublist"
begin

text \<open>
  InfraGuardian reviews a repository of infrastructure code: it plans which tools to run
  (graph.py, \<^verbatim>\<open>planner_node\<close>), runs them as external processes (runner.py; graph.py,
  \<^verbatim>\<open>tools_node\<close>), aggregates their JSON output into findings (runner.py, \<^verbatim>\<open>aggregate\<close>) and
  writes a report (graph.py, \<^verbatim>\<open>synth_node\<close>).  This theory embeds these functions in HOL:
  Python values as a datatype, exceptions as the left summand of a sum, the processes and
  the language model as parameters, and proves properties of the embedding.
\<close>

section \<open>Python values\<close>

text \<open>
  The tools' structured output is whatever \<^verbatim>\<open>json.loads\<close> returns: \<^verbatim>\<open>None\<close>, a bool, an
  int, a float, a str, a list or a dict with string keys.  A dict is an association list
  in insertion order, read with \<^const>\<open>map_of\<close>.  The float type is the parameter \<open>'f\<close>:
  the code only tests a float for truth (\<open>x \<noteq> 0\<close>) and adds two floats, so any type with
  a zero and an addition stands for it, and rounding is not fixed by the model.  A str is
  a \<^typ>\<open>string\<close>, one \<^typ>\<open>char\<close> per ASCII character.
\<close>

datatype 'f pyval =
    PNone
  | PBool bool
  | PInt int
  | PFloat 'f
  | PStr string
  | PList "'f pyval list"
  | PDict "(string \<times> 'f pyval) list"

type_synonym 'f pydict = "(string \<times> 'f pyval) list"

text \<open>The exceptions the aggregation code can raise.\<close>

datatype error = TypeError | AttributeError | KeyError

definition bindE :: "error + 'a \<Rightarrow> ('a \<Rightarrow> error + 'b) \<Rightarrow> error + 'b" where
  "bindE m f = (case m of Inl e \<Rightarrow> Inl e | Inr x \<Rightarrow> f x)"

text \<open>A \<^verbatim>\<open>for\<close> loop that threads an accumulator and stops at the first exception.\<close>

fun foldE :: "('a \<Rightarrow> 'b \<Rightarrow> error + 'a) \<Rightarrow> 'a \<Rightarrow> 'b list \<Rightarrow> error + 'a" where
  "foldE f acc [] = Inr acc"
| "foldE f acc (x # xs) = bindE (f acc x) (\<lambda>acc'. foldE f acc' xs)"

text \<open>A list comprehension whose element expression can raise.\<close>

fun mapE :: "('a \<Rightarrow> error + 'b) \<Rightarrow> 'a list \<Rightarrow> error + 'b list" where
  "mapE f [] = Inr []"
| "mapE f (x # xs) = bindE (f x) (\<lambda>y. bindE (mapE f xs) (\<lambda>ys. Inr (y # ys)))"

text \<open>Truth value testing: \<^verbatim>\<open>if x:\<close>, \<^verbatim>\<open>x or y\<close>.\<close>

fun truthy :: "'f::zero pyval \<Rightarrow> bool" where
  "truthy PNone = False"
| "truthy (PBool b) = b"
| "truthy (PInt i) = (i \<noteq> 0)"
| "truthy (PFloat x) = (x \<noteq> 0)"
| "truthy (PStr s) = (s \<noteq> [])"
| "truthy (PList xs) = (xs \<noteq> [])"
| "truthy (PDict kvs) = (kvs \<noteq> [])"

text \<open>\<^verbatim>\<open>x.get(k, d)\<close>: only a dict has the method.\<close>

fun py_get :: "'f pyval \<Rightarrow> string \<Rightarrow> 'f pyval \<Rightarrow> error + 'f pyval" where
  "py_get (PDict kvs) k d = Inr (case map_of kvs k of Some v \<Rightarrow> v | None \<Rightarrow> d)"
| "py_get _ k d = Inl AttributeError"

text \<open>
  Iteration (\<^verbatim>\<open>for f in x\<close>, \<^verbatim>\<open>xs += x\<close>): a list gives its elements, a str its
  characters as one-character strs, a dict its keys; anything else is not iterable.
\<close>

fun py_iter :: "'f pyval \<Rightarrow> error + 'f pyval list" where
  "py_iter (PList xs) = Inr xs"
| "py_iter (PStr s) = Inr (map (\<lambda>c. PStr [c]) s)"
| "py_iter (PDict kvs) = Inr (map (\<lambda>kv. PStr (fst kv)) kvs)"
| "py_iter _ = Inl TypeError"

text \<open>\<^verbatim>\<open>len(x)\<close>.\<close>

fun py_len :: "'f pyval \<Rightarrow> error + nat" where
  "py_len (PList xs) = Inr (length xs)"
| "py_len (PStr s) = Inr (length s)"
| "py_len (PDict kvs) = Inr (length kvs)"
| "py_len _ = Inl TypeError"

text \<open>
  \<^verbatim>\<open>x[:5]\<close>: a list or a str is sliced; a dict has no slice key (TypeError before
  Python 3.12, KeyError from 3.12 on; the model names the first), and the other values
  are not subscriptable.
\<close>

fun py_slice5 :: "'f pyval \<Rightarrow> error + 'f pyval" where
  "py_slice5 (PList xs) = Inr (PList (take 5 xs))"
| "py_slice5 (PStr s) = Inr (PStr (take 5 s))"
| "py_slice5 _ = Inl TypeError"

text \<open>\<^verbatim>\<open>str.upper\<close> on ASCII: only a str has the method.\<close>

definition upper_char :: "char \<Rightarrow> char" where
  "upper_char c =
     (case map_of (zip ''abcdefghijklmnopqrstuvwxyz'' ''ABCDEFGHIJKLMNOPQRSTUVWXYZ'') c of
        Some u \<Rightarrow> u
      | None \<Rightarrow> c)"

fun py_upper :: "'f pyval \<Rightarrow> error + string" where
  "py_upper (PStr s) = Inr (map upper_char s)"
| "py_upper _ = Inl AttributeError"

section \<open>Command results\<close>

text \<open>
  A \<^verbatim>\<open>CmdResult\<close> is a dict with some of the keys \<^verbatim>\<open>ok\<close>, \<^verbatim>\<open>code\<close>, \<^verbatim>\<open>stdout\<close>,
  \<^verbatim>\<open>stderr\<close>, \<^verbatim>\<open>cmd\<close>, \<^verbatim>\<open>json\<close> and \<^verbatim>\<open>raw\<close>; a field is \<open>None\<close> when the key is absent.
  \<open>json = Some PNone\<close> is the key present with the value \<^verbatim>\<open>None\<close> (stdout did not parse).
\<close>

datatype 'f cmd_result = CmdResult
  (ok: "bool option")
  (code: "int option")
  (stdout: "string option")
  (stderr: "string option")
  (cmd: "string list option")
  (json: "'f pyval option")
  (raw: "'f cmd_result option")

definition empty_result :: "'f cmd_result" where
  "empty_result = CmdResult None None None None None None None"

text \<open>\<^verbatim>\<open>r.get("json")\<close> and the truth of \<^verbatim>\<open>r.get("stderr")\<close>.\<close>

definition get_json :: "'f cmd_result \<Rightarrow> 'f pyval" where
  "get_json r = (case json r of None \<Rightarrow> PNone | Some v \<Rightarrow> v)"

definition has_stderr :: "'f cmd_result \<Rightarrow> bool" where
  "has_stderr r = (case stderr r of None \<Rightarrow> False | Some s \<Rightarrow> s \<noteq> [])"

definition get_stderr :: "'f cmd_result \<Rightarrow> string" where
  "get_stderr r = (case stderr r of None \<Rightarrow> [] | Some s \<Rightarrow> s)"

text \<open>\<^verbatim>\<open>results.get(name, {})\<close>.\<close>

definition get_result :: "(string \<times> 'f cmd_result) list \<Rightarrow> string \<Rightarrow> 'f cmd_result" where
  "get_result results name = (case map_of results name of None \<Rightarrow> empty_result | Some r \<Rightarrow> r)"

section \<open>The findings aggregator (runner.py, aggregate)\<close>

text \<open>Lines 55-61: the tfsec findings and the warnings after the tfsec block.\<close>

definition tfsec_block :: "'f::zero cmd_result \<Rightarrow> string list \<Rightarrow> 'f pyval \<times> string list" where
  "tfsec_block tfsec warnings =
     (if truthy (get_json tfsec) then
        (case get_json tfsec of
           PDict tfj \<Rightarrow> (case map_of tfj ''results'' of Some v \<Rightarrow> v | None \<Rightarrow> PList [])
         | _ \<Rightarrow> PList [],
         warnings)
      else if has_stderr tfsec then (PList [], warnings @ [''tfsec: '' @ get_stderr tfsec])
      else (PList [], warnings))"

text \<open>
  Lines 70 and 72: \<^verbatim>\<open>checkov_findings += fw.get("results", {}).get("failed_checks", [])\<close>.
\<close>

definition add_failed_checks :: "'f pyval list \<Rightarrow> 'f pyval \<Rightarrow> error + 'f pyval list" where
  "add_failed_checks checkov_findings fw =
     bindE (py_get fw ''results'' (PDict [])) (\<lambda>res.
     bindE (py_get res ''failed_checks'' (PList [])) (\<lambda>failed.
     bindE (py_iter failed) (\<lambda>xs. Inr (checkov_findings @ xs))))"

text \<open>Lines 64-74: the checkov findings and the warnings after the checkov block.\<close>

definition checkov_block ::
  "'f::zero cmd_result \<Rightarrow> string list \<Rightarrow> error + ('f pyval list \<times> string list)" where
  "checkov_block checkov warnings =
     (if truthy (get_json checkov) then
        (case get_json checkov of
           PList cj \<Rightarrow> bindE (foldE add_failed_checks [] cj) (\<lambda>fs. Inr (fs, warnings))
         | PDict cj \<Rightarrow> bindE (add_failed_checks [] (PDict cj)) (\<lambda>fs. Inr (fs, warnings))
         | _ \<Rightarrow> Inr ([], warnings))
      else if has_stderr checkov then Inr ([], warnings @ [''checkov: '' @ get_stderr checkov])
      else Inr ([], warnings))"

text \<open>
  Lines 81-88, the body of the loop over the projects.  \<open>float_of\<close> is the builtin
  \<^verbatim>\<open>float\<close>: \<open>None\<close> when it raises, which the \<^verbatim>\<open>except Exception: pass\<close> swallows.
\<close>

definition add_project ::
  "('f pyval \<Rightarrow> 'f option) \<Rightarrow> 'f::plus option \<Rightarrow> 'f pyval \<Rightarrow> error + 'f option" where
  "add_project float_of total_monthly p =
     bindE (py_get p ''summary'' (PDict [])) (\<lambda>s.
     bindE (py_get s ''totalMonthlyCost'' PNone) (\<lambda>c.
       if c \<noteq> PNone then
         (case float_of c of
            Some val \<Rightarrow>
              Inr (Some (case total_monthly of None \<Rightarrow> val | Some t \<Rightarrow> t + val))
          | None \<Rightarrow> Inr total_monthly)
       else Inr total_monthly))"

text \<open>Lines 77-90: the monthly total and the warnings after the infracost block.\<close>

definition infracost_block ::
  "('f pyval \<Rightarrow> 'f option) \<Rightarrow> 'f::{zero,plus} cmd_result \<Rightarrow> string list
     \<Rightarrow> error + ('f option \<times> string list)" where
  "infracost_block float_of infr warnings =
     (case (truthy (get_json infr), get_json infr) of
        (True, PDict ij) \<Rightarrow>
          bindE (py_iter (case map_of ij ''projects'' of Some v \<Rightarrow> v | None \<Rightarrow> PList []))
            (\<lambda>projects.
          bindE (foldE (add_project float_of) None projects) (\<lambda>t. Inr (t, warnings)))
      | _ \<Rightarrow>
          if has_stderr infr then Inr (None, warnings @ [''infracost: '' @ get_stderr infr])
          else Inr (None, warnings))"

text \<open>Lines 92-98: the severity histogram.\<close>

definition init_counts :: "(string \<times> int) list" where
  "init_counts =
     [(''CRITICAL'', 0), (''HIGH'', 0), (''MEDIUM'', 0), (''LOW'', 0), (''UNKNOWN'', 0)]"

text \<open>Line 95: \<^verbatim>\<open>(f.get(sev_key) or f.get("severity_label") or "UNKNOWN").upper()\<close>.\<close>

definition raw_sev :: "string \<Rightarrow> 'f::zero pyval \<Rightarrow> error + string" where
  "raw_sev sev_key f =
     bindE (py_get f sev_key PNone) (\<lambda>a.
     bindE (if truthy a then Inr a
            else bindE (py_get f ''severity_label'' PNone) (\<lambda>b.
                 Inr (if truthy b then b else PStr ''UNKNOWN''))) (\<lambda>v.
     py_upper v))"

text \<open>Line 96: \<^verbatim>\<open>if sev not in counts: sev = "UNKNOWN"\<close>.\<close>

definition bucket :: "(string \<times> int) list \<Rightarrow> string \<Rightarrow> string" where
  "bucket counts sev = (if sev \<notin> set (map fst counts) then ''UNKNOWN'' else sev)"

text \<open>Line 97: \<^verbatim>\<open>counts[sev] += 1\<close>.\<close>

definition incr :: "(string \<times> int) list \<Rightarrow> string \<Rightarrow> error + (string \<times> int) list" where
  "incr counts sev =
     (case map_of counts sev of
        None \<Rightarrow> Inl KeyError
      | Some c \<Rightarrow> Inr (AList.update sev (c + 1) counts))"

text \<open>Lines 95-97, the body of the loop: the bucket of one finding, then the increment.\<close>

definition normalized :: "string \<Rightarrow> (string \<times> int) list \<Rightarrow> 'f::zero pyval \<Rightarrow> error + string" where
  "normalized sev_key counts f = bindE (raw_sev sev_key f) (\<lambda>sev. Inr (bucket counts sev))"

definition sev_step ::
  "string \<Rightarrow> (string \<times> int) list \<Rightarrow> 'f::zero pyval \<Rightarrow> error + (string \<times> int) list" where
  "sev_step sev_key counts f = bindE (normalized sev_key counts f) (incr counts)"

definition sev_count :: "'f::zero pyval \<Rightarrow> string \<Rightarrow> error + (string \<times> int) list" where
  "sev_count findings sev_key =
     bindE (py_iter findings) (foldE (sev_step sev_key) init_counts)"

text \<open>Lines 100-101: \<^verbatim>\<open>{"count": len(findings), "severities": sev_count(findings)}\<close>.\<close>

definition summary :: "'f::zero pyval \<Rightarrow> error + 'f pydict" where
  "summary findings =
     bindE (py_len findings) (\<lambda>n.
     bindE (sev_count findings ''severity'') (\<lambda>counts.
     Inr [(''count'', PInt (int n)),
          (''severities'', PDict (map (\<lambda>kv. (fst kv, PInt (snd kv))) counts))]))"

text \<open>Lines 104-111: the first five findings, projected on three fields.\<close>

definition top_entry :: "string \<Rightarrow> string \<Rightarrow> 'f pyval \<Rightarrow> error + 'f pyval" where
  "top_entry id_name id_key f =
     bindE (py_get f id_key PNone) (\<lambda>i.
     bindE (py_get f ''severity'' PNone) (\<lambda>s.
     bindE (py_get f ''resource'' PNone) (\<lambda>r.
     Inr (PDict [(id_name, i), (''severity'', s), (''resource'', r)]))))"

definition top_issues :: "string \<Rightarrow> string \<Rightarrow> 'f pyval \<Rightarrow> error + 'f pyval list" where
  "top_issues id_name id_key findings =
     bindE (py_slice5 findings) (\<lambda>first.
     bindE (py_iter first) (mapE (top_entry id_name id_key)))"

record 'f agg =
  agg_warnings :: "string list"
  agg_tfsec :: "'f pydict"
  agg_checkov :: "'f pydict"
  agg_infracost :: "'f pydict"
  agg_top_tfsec :: "'f pyval list"
  agg_top_checkov :: "'f pyval list"

definition cost_value :: "'f option \<Rightarrow> 'f pyval" where
  "cost_value total_monthly = (case total_monthly of None \<Rightarrow> PNone | Some t \<Rightarrow> PFloat t)"

definition aggregate ::
  "('f pyval \<Rightarrow> 'f option) \<Rightarrow> (string \<times> 'f::{zero,plus} cmd_result) list \<Rightarrow> error + 'f agg" where
  "aggregate float_of results =
     (case tfsec_block (get_result results ''tfsec'') [] of (tfsec_findings, w1) \<Rightarrow>
      bindE (checkov_block (get_result results ''checkov'') w1) (\<lambda>(checkov_findings, w2).
      bindE (infracost_block float_of (get_result results ''infracost'') w2)
        (\<lambda>(total_monthly, w3).
      bindE (summary tfsec_findings) (\<lambda>tfsec_summary.
      bindE (summary (PList checkov_findings)) (\<lambda>checkov_summary.
      bindE (top_issues ''rule'' ''rule_id'' tfsec_findings) (\<lambda>top_tfsec.
      bindE (top_issues ''check_id'' ''check_id'' (PList checkov_findings)) (\<lambda>top_checkov.
      Inr \<lparr>agg_warnings = w3,
           agg_tfsec = tfsec_summary,
           agg_checkov = checkov_summary,
           agg_infracost = [(''monthly_cost'', cost_value total_monthly)],
           agg_top_tfsec = top_tfsec,
           agg_top_checkov = top_checkov\<rparr>)))))))"

section \<open>The tool runners (runner.py)\<close>

text \<open>
  The outside world is a state \<open>'w\<close> with two operations: \<open>on_path\<close> is
  \<^verbatim>\<open>shutil.which(name) is not None\<close>, and \<open>subprocess_run\<close> is \<^verbatim>\<open>subprocess.run\<close> in the
  directory of the repository: it raises (\<open>Inl\<close> the exception's text) or ends with a return
  code, stdout and stderr, and leaves a new world.  The machine state also records the
  trace of the calls made to the two operations.
\<close>

record 'w os =
  on_path :: "'w \<Rightarrow> string \<Rightarrow> bool"
  subprocess_run :: "'w \<Rightarrow> string \<Rightarrow> string list \<Rightarrow> (string + int \<times> string \<times> string) \<times> 'w"

datatype event = Which string | Spawn "string list"

record 'w machine =
  world :: 'w
  trace :: "event list"

text \<open>
  The builtins of Python the code calls on values: \<^verbatim>\<open>float(x)\<close> and \<^verbatim>\<open>json.loads(s)\<close>
  (\<open>None\<close> when they raise), and the \<^verbatim>\<open>repr\<close> of a float and of a str.
\<close>

record 'f builtins =
  float_of :: "'f pyval \<Rightarrow> 'f option"
  json_loads :: "string \<Rightarrow> 'f pyval option"
  float_repr :: "'f \<Rightarrow> string"
  str_repr :: "string \<Rightarrow> string"

definition which :: "'w os \<Rightarrow> string \<Rightarrow> 'w machine \<Rightarrow> bool \<times> 'w machine" where
  "which W name st = (on_path W (world st) name, st\<lparr>trace := trace st @ [Which name]\<rparr>)"

definition run ::
  "'w os \<Rightarrow> string list \<Rightarrow> string \<Rightarrow> 'w machine \<Rightarrow> 'f cmd_result \<times> 'w machine" where
  "run W cmd' cwd st =
     (case subprocess_run W (world st) cwd cmd' of (outcome, w') \<Rightarrow>
        ((case outcome of
            Inr (returncode, out, err) \<Rightarrow>
              CmdResult (Some (returncode = 0)) (Some returncode) (Some out) (Some err)
                (Some cmd') None None
          | Inl e \<Rightarrow>
              CmdResult (Some False) (Some (- 1)) (Some []) (Some e) (Some cmd') None None),
         \<lparr>world = w', trace = trace st @ [Spawn cmd']\<rparr>))"

definition safe_json :: "'f builtins \<Rightarrow> string \<Rightarrow> 'f pyval" where
  "safe_json B s = (case json_loads B s of Some v \<Rightarrow> v | None \<Rightarrow> PNone)"

text \<open>\<^verbatim>\<open>{"ok": False, "stderr": "<tool> not found"}\<close>.\<close>

definition not_found :: "string \<Rightarrow> 'f cmd_result" where
  "not_found name =
     CmdResult (Some False) None None (Some (name @ '' not found'')) None None None"

text \<open>
  \<^verbatim>\<open>{"ok": res.get("ok", False), "json": _safe_json(res.get("stdout", "")), "raw": res}\<close>.
\<close>

definition parsed :: "'f builtins \<Rightarrow> 'f cmd_result \<Rightarrow> 'f cmd_result" where
  "parsed B res =
     CmdResult (Some (case ok res of Some b \<Rightarrow> b | None \<Rightarrow> False)) None None None None
       (Some (safe_json B (case stdout res of Some s \<Rightarrow> s | None \<Rightarrow> [])))
       (Some res)"

definition terraform_plan ::
  "'w os \<Rightarrow> 'f builtins \<Rightarrow> string \<Rightarrow> 'w machine \<Rightarrow> 'f cmd_result \<times> 'w machine" where
  "terraform_plan W B repo st =
     (case which W ''terraform'' st of (found, st0) \<Rightarrow>
      if \<not> found then (not_found ''terraform'', st0)
      else
        (case run W [''terraform'', ''init'', ''-backend=false''] repo st0 of (init, st1) \<Rightarrow>
         if ok init \<noteq> Some True then (init, st1)
         else
           (case run W [''terraform'', ''plan'', ''-no-color'', ''-out'', ''tf.plan''] repo st1
            of (plan, st2) \<Rightarrow>
            if ok plan \<noteq> Some True then (plan, st2)
            else
              (case run W [''terraform'', ''show'', ''-json'', ''tf.plan''] repo st2
               of (show, st3) \<Rightarrow> (parsed B show, st3)))))"

definition tfsec_scan ::
  "'w os \<Rightarrow> 'f builtins \<Rightarrow> string \<Rightarrow> 'w machine \<Rightarrow> 'f cmd_result \<times> 'w machine" where
  "tfsec_scan W B repo st =
     (case which W ''tfsec'' st of (found, st0) \<Rightarrow>
      if \<not> found then (not_found ''tfsec'', st0)
      else
        (case run W [''tfsec'', ''--format'', ''json'', ''--no-color'', ''.''] repo st0
         of (res, st1) \<Rightarrow> (parsed B res, st1)))"

definition checkov_scan ::
  "'w os \<Rightarrow> 'f builtins \<Rightarrow> string \<Rightarrow> 'w machine \<Rightarrow> 'f cmd_result \<times> 'w machine" where
  "checkov_scan W B repo st =
     (case which W ''checkov'' st of (found, st0) \<Rightarrow>
      if \<not> found then (not_found ''checkov'', st0)
      else
        (case run W [''checkov'', ''-d'', ''.'', ''-o'', ''json''] repo st0
         of (res, st1) \<Rightarrow> (parsed B res, st1)))"

definition infracost_breakdown ::
  "'w os \<Rightarrow> 'f builtins \<Rightarrow> string \<Rightarrow> 'w machine \<Rightarrow> 'f cmd_result \<times> 'w machine" where
  "infracost_breakdown W B repo st =
     (case which W ''infracost'' st of (found, st0) \<Rightarrow>
      if \<not> found then (not_found ''infracost'', st0)
      else
        (case run W [''infracost'', ''breakdown'', ''--path'', ''.'', ''--format'', ''json'']
                repo st0
         of (res, st1) \<Rightarrow> (parsed B res, st1)))"

section \<open>The data model (models.py)\<close>

datatype tool_name =
  T_terraform_plan | T_tfsec | T_checkov | T_conftest | T_infracost | T_gitleaks

record repo_context =
  repo_dir :: string
  diff_summary :: "string option"
  policy_snippets :: "string list option"

record 'f plan_step =
  tool :: tool_name
  args :: "'f pydict"

record 'f review_plan =
  steps :: "'f plan_step list"
  justification :: string

text \<open>
  The fields of \<^verbatim>\<open>Findings\<close> are dicts; \<open>terraform\<close> receives a command result, and
  \<^const>\<open>empty_result\<close> is its default \<^verbatim>\<open>{}\<close>.
\<close>

record 'f findings =
  tfsec :: "'f pydict"
  checkov :: "'f pydict"
  terraform :: "'f cmd_result"
  conftest :: "'f pydict"
  infracost :: "'f pydict"
  gitleaks :: "'f pydict"
  warnings :: "string list"

record 'f synthesis =
  markdown :: string
  risks_ranked :: "'f pydict list"
  controls :: "string list"

record patch_suggestion =
  patch_unified_diff :: "string option"
  patch_notes :: "string option"

record 'f agent_state =
  ctx :: repo_context
  plan :: "'f review_plan option"
  findings :: "'f findings"
  synthesis :: "'f synthesis option"
  patch :: "patch_suggestion option"

section \<open>Formatting values (f-strings, str.join)\<close>

definition digit_char :: "nat \<Rightarrow> char" where
  "digit_char d = char_of (48 + d)"

fun str_nat :: "nat \<Rightarrow> string" where
  "str_nat n = (if n < 10 then [digit_char n] else str_nat (n div 10) @ [digit_char (n mod 10)])"

declare str_nat.simps [simp del]

definition str_int :: "int \<Rightarrow> string" where
  "str_int i = (if i < 0 then ''-'' @ str_nat (nat (- i)) else str_nat (nat i))"

text \<open>\<^verbatim>\<open>sep.join(xs)\<close>.\<close>

fun join :: "string \<Rightarrow> string list \<Rightarrow> string" where
  "join sep [] = []"
| "join sep [x] = x"
| "join sep (x # y # ys) = x @ sep @ join sep (y # ys)"

text \<open>\<^verbatim>\<open>repr(v)\<close>, and \<^verbatim>\<open>str(v)\<close> as an f-string field formats a value.\<close>

fun py_repr :: "'f builtins \<Rightarrow> 'f pyval \<Rightarrow> string" where
  "py_repr B PNone = ''None''"
| "py_repr B (PBool b) = (if b then ''True'' else ''False'')"
| "py_repr B (PInt i) = str_int i"
| "py_repr B (PFloat x) = float_repr B x"
| "py_repr B (PStr s) = str_repr B s"
| "py_repr B (PList xs) = ''['' @ join '', '' (map (py_repr B) xs) @ '']''"
| "py_repr B (PDict kvs) =
     ''{'' @ join '', '' (map (\<lambda>kv. str_repr B (fst kv) @ '': '' @ py_repr B (snd kv)) kvs) @ ''}''"

definition py_str :: "'f builtins \<Rightarrow> 'f pyval \<Rightarrow> string" where
  "py_str B v = (case v of PStr s \<Rightarrow> s | _ \<Rightarrow> py_repr B v)"

text \<open>\<^verbatim>\<open>d.get(k, default)\<close> on a dict.\<close>

definition dict_get :: "'f pydict \<Rightarrow> string \<Rightarrow> 'f pyval \<Rightarrow> 'f pyval" where
  "dict_get d k dflt = (case map_of d k of Some v \<Rightarrow> v | None \<Rightarrow> dflt)"

section \<open>The pipeline stages (graph.py)\<close>

text \<open>
  The language model client, when one is configured (\<^verbatim>\<open>_llm()\<close> returns it, or \<^verbatim>\<open>None\<close>):
  \<open>plan_invoke\<close> is \<^verbatim>\<open>llm.with_structured_output(ReviewPlan).invoke\<close> on the system prompt
  and the user payload, \<open>invoke\<close> is \<^verbatim>\<open>llm.invoke(...).content\<close> on the system prompt and the
  findings.  \<open>Inl\<close> carries the text \<^verbatim>\<open>str(e)\<close> of the exception a call raises (a transport
  error, a response that does not validate).
\<close>

record user_payload =
  payload_diff_summary :: "string option"
  payload_policy_snippets :: "string list"
  payload_tools :: "string list"

record 'f llm =
  plan_invoke :: "string \<Rightarrow> user_payload \<Rightarrow> string + 'f review_plan"
  invoke :: "string \<Rightarrow> 'f findings \<Rightarrow> string + string"

definition shorten :: "string option \<Rightarrow> nat \<Rightarrow> string option" where
  "shorten t max_chars =
     (case t of
        None \<Rightarrow> None
      | Some s \<Rightarrow>
          if s = [] then Some s
          else if length s \<le> max_chars then Some s
          else Some (take max_chars s @ [CHR 0x0A] @ ''...[truncated ''
                     @ str_nat (length s - max_chars) @ '' chars]''))"

definition default_steps :: "'f plan_step list" where
  "default_steps =
     [\<lparr>tool = T_terraform_plan, args = []\<rparr>,
      \<lparr>tool = T_tfsec, args = []\<rparr>,
      \<lparr>tool = T_checkov, args = []\<rparr>,
      \<lparr>tool = T_infracost, args = []\<rparr>]"

definition planner_prompt :: string where
  "planner_prompt =
     ''You are an Infrastructure-as-Code review planner. ''
     @ ''Given a repo diff summary and policy snippets, decide the MINIMAL set of tools to run ''
     @ ''(allowed tools: terraform_plan, tfsec, checkov, conftest, infracost, gitleaks) and any flags. ''
     @ ''Output strictly a ReviewPlan JSON matching the schema.''"

definition planner_payload :: "repo_context \<Rightarrow> user_payload" where
  "planner_payload c =
     \<lparr>payload_diff_summary = shorten (diff_summary c) 2000,
      payload_policy_snippets =
        take 6 (case policy_snippets c of None \<Rightarrow> [] | Some ps \<Rightarrow> if ps = [] then [] else ps),
      payload_tools =
        [''terraform_plan'', ''tfsec'', ''checkov'', ''conftest'', ''infracost'', ''gitleaks'']\<rparr>"

text \<open>
  Lines 63-72, the body of the \<^verbatim>\<open>try\<close>: the plan, or the text of the exception raised
  (by the call, or by line 71 on an empty plan).
\<close>

definition ask_plan :: "'f llm \<Rightarrow> repo_context \<Rightarrow> string + 'f review_plan" where
  "ask_plan l c =
     (case plan_invoke l planner_prompt (planner_payload c) of
        Inl e \<Rightarrow> Inl e
      | Inr p \<Rightarrow> if steps p = [] then Inl ''LLM returned an empty plan.'' else Inr p)"

definition planner_node :: "'f llm option \<Rightarrow> 'f agent_state \<Rightarrow> 'f agent_state" where
  "planner_node llm state =
     (case llm of
        None \<Rightarrow>
          state\<lparr>plan := Some \<lparr>steps = default_steps,
                              justification =
                                ''Deterministic fallback (no LLM/model unavailable).''\<rparr>\<rparr>
      | Some l \<Rightarrow>
          (case ask_plan l (ctx state) of
             Inr p \<Rightarrow> state\<lparr>plan := Some p\<rparr>
           | Inl e \<Rightarrow>
               state\<lparr>plan := Some \<lparr>steps = default_steps,
                                   justification =
                                     ''LLM planning failed: '' @ e
                                     @ ''. Using default plan.''\<rparr>\<rparr>))"

text \<open>Line 90: \<^verbatim>\<open>sorted(steps, key=lambda s: 0 if s.tool == "terraform_plan" else 1)\<close>.\<close>

definition sort_rank :: "'f plan_step \<Rightarrow> nat" where
  "sort_rank s = (if tool s = T_terraform_plan then 0 else 1)"

definition ordered :: "'f plan_step list \<Rightarrow> 'f plan_step list" where
  "ordered ss = sort_key sort_rank ss"

text \<open>Lines 93-102, the body of the loop over the ordered steps.\<close>

definition run_step ::
  "'w os \<Rightarrow> 'f builtins \<Rightarrow> string \<Rightarrow> (string \<times> 'f cmd_result) list \<times> 'w machine
     \<Rightarrow> 'f plan_step \<Rightarrow> (string \<times> 'f cmd_result) list \<times> 'w machine" where
  "run_step W B repo acc step =
     (case acc of (results, st) \<Rightarrow>
        let t = tool step in
        if t = T_terraform_plan then
          (case terraform_plan W B repo st of (r, st') \<Rightarrow>
             (AList.update ''terraform'' r results, st'))
        else if t = T_tfsec then
          (case tfsec_scan W B repo st of (r, st') \<Rightarrow> (AList.update ''tfsec'' r results, st'))
        else if t = T_checkov then
          (case checkov_scan W B repo st of (r, st') \<Rightarrow>
             (AList.update ''checkov'' r results, st'))
        else if t = T_infracost then
          (case infracost_breakdown W B repo st of (r, st') \<Rightarrow>
             (AList.update ''infracost'' r results, st'))
        else (results, st))"

text \<open>Lines 87-102: the results mapping and the machine after the loop.\<close>

definition run_tools ::
  "'w os \<Rightarrow> 'f builtins \<Rightarrow> string \<Rightarrow> 'f plan_step list \<Rightarrow> 'w machine
     \<Rightarrow> (string \<times> 'f cmd_result) list \<times> 'w machine" where
  "run_tools W B repo ss st = foldl (run_step W B repo) ([], st) (ordered ss)"

text \<open>
  \<^verbatim>\<open>tools_node\<close>: the aggregation can raise, after the tools have run, so the machine is
  returned beside the result.  The runners get \<^verbatim>\<open>repo_dir\<close> as it is; resolving the path is
  left to the world.
\<close>

definition tools_node ::
  "'w os \<Rightarrow> 'f::{zero,plus} builtins \<Rightarrow> 'w machine \<Rightarrow> 'f agent_state
     \<Rightarrow> (error + 'f agent_state) \<times> 'w machine" where
  "tools_node W B st state =
     (case run_tools W B (repo_dir (ctx state))
             (case plan state of Some p \<Rightarrow> steps p | None \<Rightarrow> []) st
      of (results, st') \<Rightarrow>
        (case aggregate (float_of B) results of
           Inl e \<Rightarrow> Inl e
         | Inr a \<Rightarrow>
             Inr (state\<lparr>findings :=
                    \<lparr>tfsec = agg_tfsec a,
                     checkov = agg_checkov a,
                     terraform = get_result results ''terraform'',
                     conftest = [],
                     infracost = agg_infracost a,
                     gitleaks = [],
                     warnings = agg_warnings a\<rparr>\<rparr>),
         st'))"

definition synth_prompt :: string where
  "synth_prompt =
     ''You are an expert IaC security and FinOps reviewer. ''
     @ ''Given structured findings from tools, write ONE concise Markdown report suitable for a PR comment. ''
     @ ''Include: severity rollups, a few top issues with resource IDs, CIS/NIST refs when clear, ''
     @ ''estimated monthly cost (if available), and SPECIFIC actionable fixes. ''
     @ ''Keep under ~300 lines and do not invent data.''"

text \<open>The em dash of lines 123-124, as its three UTF-8 bytes.\<close>

definition em_dash :: string where
  "em_dash = [CHR 0xE2, CHR 0x80, CHR 0x94]"

text \<open>Lines 121-128: the lines of the deterministic report.\<close>

definition report_lines :: "'f builtins \<Rightarrow> 'f findings \<Rightarrow> string list" where
  "report_lines B fs =
     [''# InfraGuardian Report (deterministic)'',
      ''**tfsec**: '' @ py_str B (dict_get (tfsec fs) ''count'' (PInt 0)) @ '' issues ''
        @ em_dash @ '' '' @ py_str B (dict_get (tfsec fs) ''severities'' (PDict [])),
      ''**Checkov**: '' @ py_str B (dict_get (checkov fs) ''count'' (PInt 0)) @ '' issues ''
        @ em_dash @ '' '' @ py_str B (dict_get (checkov fs) ''severities'' (PDict [])),
      ''**Estimated Monthly Cost**: ''
        @ py_str B (dict_get (infracost fs) ''monthly_cost'' (PStr ''unavailable''))]
     @ (if warnings fs \<noteq> [] then [''> Warnings: '' @ join ''; '' (warnings fs)] else [])"

definition new_synthesis :: "string \<Rightarrow> 'f synthesis" where
  "new_synthesis md = \<lparr>markdown = md, risks_ranked = [], controls = []\<rparr>"

definition synth_node :: "'f builtins \<Rightarrow> 'f llm option \<Rightarrow> 'f agent_state \<Rightarrow> 'f agent_state" where
  "synth_node B llm state =
     (case llm of
        None \<Rightarrow>
          state\<lparr>synthesis :=
            Some (new_synthesis (join [CHR 0x0A, CHR 0x0A] (report_lines B (findings state))))\<rparr>
      | Some l \<Rightarrow>
          (case invoke l synth_prompt (findings state) of
             Inr md \<Rightarrow>
               state\<lparr>synthesis := Some (new_synthesis (if md = [] then ''(empty)'' else md))\<rparr>
           | Inl e \<Rightarrow>
               state\<lparr>synthesis := Some (new_synthesis
                 (''# InfraGuardian Report (fallback)'' @ [CHR 0x0A, CHR 0x0A]
                  @ ''LLM synthesis failed: '' @ e @ [CHR 0x0A, CHR 0x0A]
                  @ ''- tfsec: '' @ py_repr B (PDict (tfsec (findings state))) @ [CHR 0x0A]
                  @ ''- checkov: '' @ py_repr B (PDict (checkov (findings state))) @ [CHR 0x0A]
                  @ ''- cost: '' @ py_repr B (PDict (infracost (findings state)))
                  @ [CHR 0x0A]))\<rparr>))"

definition patcher_node :: "'f agent_state \<Rightarrow> 'f agent_state" where
  "patcher_node state =
     state\<lparr>patch := Some \<lparr>patch_unified_diff = None,
                           patch_notes =
                             Some ''Auto-fix patch generation arrives in the next milestone.''\<rparr>\<rparr>"

text \<open>
  \<^verbatim>\<open>build_graph\<close>: the four nodes in a line, planner, tools, synth, patch.  An exception of
  \<^verbatim>\<open>tools_node\<close> ends the run.
\<close>

definition run_graph ::
  "'w os \<Rightarrow> 'f::{zero,plus} builtins \<Rightarrow> 'f llm option \<Rightarrow> 'w machine \<Rightarrow> 'f agent_state
     \<Rightarrow> (error + 'f agent_state) \<times> 'w machine" where
  "run_graph W B llm st state =
     (case tools_node W B st (planner_node llm state) of
        (Inl e, st') \<Rightarrow> (Inl e, st')
      | (Inr s, st') \<Rightarrow> (Inr (patcher_node (synth_node B llm s)), st'))"

text \<open>\<^verbatim>\<open>AgentState(ctx=RepoContext(repo_dir=..., diff_summary=...))\<close> of agent_cli.py.\<close>

definition empty_findings :: "'f findings" where
  "empty_findings =
     \<lparr>tfsec = [], checkov = [], terraform = empty_result, conftest = [], infracost = [],
      gitleaks = [], warnings = []\<rparr>"

definition initial_state :: "string \<Rightarrow> string option \<Rightarrow> 'f agent_state" where
  "initial_state dir summary' =
     \<lparr>ctx = \<lparr>repo_dir = dir, diff_summary = summary', policy_snippets = None\<rparr>,
      plan = None, findings = empty_findings, synthesis = None, patch = None\<rparr>"

section \<open>A concrete instance, to run the model\<close>

text \<open>
  Floats as exact rationals.  \<^verbatim>\<open>float\<close> takes a float, an int, a bool, or a str that is a
  plain decimal (an optional sign, digits, an optional point and digits); Python's also
  takes exponents, blanks around the number, \<^verbatim>\<open>inf\<close> and \<^verbatim>\<open>nan\<close>, which the instance refuses.
  The \<^verbatim>\<open>repr\<close> of a float is its decimal expansion, right for a float whose shortest
  decimal is short; that of a str is the str between single quotes, right for a str of
  letters and digits.
\<close>

definition digit_val :: "char \<Rightarrow> nat option" where
  "digit_val c =
     (let n = (of_char c :: nat) in if 48 \<le> n \<and> n \<le> 57 then Some (n - 48) else None)"

fun parse_nat :: "nat \<Rightarrow> string \<Rightarrow> nat option" where
  "parse_nat acc [] = Some acc"
| "parse_nat acc (c # cs) =
     (case digit_val c of None \<Rightarrow> None | Some d \<Rightarrow> parse_nat (10 * acc + d) cs)"

definition parse_decimal :: "string \<Rightarrow> rat option" where
  "parse_decimal s =
     (let ip = takeWhile (\<lambda>c. c \<noteq> CHR ''.'') s;
          fp = drop 1 (dropWhile (\<lambda>c. c \<noteq> CHR ''.'') s)
      in if ip = [] then None
         else (case (parse_nat 0 ip, parse_nat 0 fp) of
                 (Some i, Some f) \<Rightarrow> Some (of_nat i + of_nat f / 10 ^ length fp)
               | _ \<Rightarrow> None))"

definition sample_float_of :: "rat pyval \<Rightarrow> rat option" where
  "sample_float_of v =
     (case v of
        PFloat x \<Rightarrow> Some x
      | PInt i \<Rightarrow> Some (of_int i)
      | PBool b \<Rightarrow> Some (if b then 1 else 0)
      | PStr s \<Rightarrow>
          (case s of
             c # cs \<Rightarrow>
               if c = CHR ''-'' then map_option uminus (parse_decimal cs)
               else if c = CHR ''+'' then parse_decimal cs
               else parse_decimal s
           | [] \<Rightarrow> None)
      | _ \<Rightarrow> None)"

fun frac_digits :: "nat \<Rightarrow> rat \<Rightarrow> string" where
  "frac_digits 0 x = []"
| "frac_digits (Suc n) x =
     (let d = \<lfloor>10 * x\<rfloor>; r = 10 * x - of_int d
      in digit_char (nat d) # (if r = 0 then [] else frac_digits n r))"

definition sample_float_repr :: "rat \<Rightarrow> string" where
  "sample_float_repr x =
     (if x < 0 then ''-'' else []) @ str_int \<lfloor>\<bar>x\<bar>\<rfloor> @ ''.''
     @ frac_digits 17 (\<bar>x\<bar> - of_int \<lfloor>\<bar>x\<bar>\<rfloor>)"

definition sample_loads :: "string \<Rightarrow> rat pyval option" where
  "sample_loads s = map_of [(''null'', PNone), (''[]'', PList []), (''{}'', PDict [])] s"

definition sample_builtins :: "rat builtins" where
  "sample_builtins =
     \<lparr>float_of = sample_float_of,
      json_loads = sample_loads,
      float_repr = sample_float_repr,
      str_repr = (\<lambda>s. [CHR 0x27] @ s @ [CHR 0x27])\<rparr>"

text \<open>A world with no tool installed, and one where every tool runs and prints \<^verbatim>\<open>{}\<close>,
  but for \<^verbatim>\<open>terraform plan\<close>, which exits with 1.  The second counts the processes run.\<close>

definition bare_os :: "unit os" where
  "bare_os =
     \<lparr>on_path = (\<lambda>w name. False),
      subprocess_run = (\<lambda>w cwd c. (Inl ''[Errno 2] No such file or directory'', w))\<rparr>"

definition full_os :: "nat os" where
  "full_os =
     \<lparr>on_path = (\<lambda>w name. True),
      subprocess_run = (\<lambda>w cwd c.
        (if take 2 c = [''terraform'', ''plan''] then Inr (1, [], ''Error: no configuration'')
         else Inr (0, ''{}'', []), Suc w))\<rparr>"

text \<open>
  The results of a run: tfsec reports three findings, checkov two modules with one failed
  check each (without a severity, as checkov prints them), infracost three projects, two
  with a monthly cost.
\<close>

definition sample_tfsec :: "rat cmd_result" where
  "sample_tfsec =
     CmdResult (Some False) None None None None
       (Some (PDict [(''results'', PList
          [PDict [(''rule_id'', PStr ''AVD-AWS-0086''), (''severity'', PStr ''HIGH''),
                  (''resource'', PStr ''aws_s3_bucket.logs'')],
           PDict [(''rule_id'', PStr ''AVD-AWS-0132''), (''severity'', PStr ''high''),
                  (''resource'', PStr ''aws_s3_bucket.logs'')],
           PDict [(''rule_id'', PStr ''AVD-AWS-0089''), (''severity'', PStr ''Low''),
                  (''resource'', PStr ''aws_s3_bucket.data'')]])]))
       None"

definition sample_checkov :: "rat cmd_result" where
  "sample_checkov =
     CmdResult (Some False) None None None None
       (Some (PList
          [PDict [(''check_type'', PStr ''terraform''),
                  (''results'', PDict [(''failed_checks'', PList
                     [PDict [(''check_id'', PStr ''CKV_AWS_18''), (''severity'', PNone),
                             (''resource'', PStr ''aws_s3_bucket.logs'')]])])],
           PDict [(''check_type'', PStr ''secrets''),
                  (''results'', PDict [(''failed_checks'', PList
                     [PDict [(''check_id'', PStr ''CKV_SECRET_6''),
                             (''severity_label'', PStr ''critical''),
                             (''resource'', PStr ''main.tf'')]])])]]))
       None"

definition sample_infracost :: "rat cmd_result" where
  "sample_infracost =
     CmdResult (Some True) None None None None
       (Some (PDict [(''projects'', PList
          [PDict [(''name'', PStr ''prod''),
                  (''summary'', PDict [(''totalMonthlyCost'', PStr ''120.50'')])],
           PDict [(''name'', PStr ''empty''),
                  (''summary'', PDict [(''totalMonthlyCost'', PNone)])],
           PDict [(''name'', PStr ''staging''),
                  (''summary'', PDict [(''totalMonthlyCost'', PStr ''79.50'')])]])]))
       None"

definition sample_results :: "(string \<times> rat cmd_result) list" where
  "sample_results =
     [(''tfsec'', sample_tfsec), (''checkov'', sample_checkov),
      (''infracost'', sample_infracost)]"

definition sample_agg :: "rat agg" where
  "sample_agg =
     \<lparr>agg_warnings = [],
      agg_tfsec =
        [(''count'', PInt 3),
         (''severities'',
          PDict [(''CRITICAL'', PInt 0), (''HIGH'', PInt 2), (''MEDIUM'', PInt 0),
                 (''LOW'', PInt 1), (''UNKNOWN'', PInt 0)])],
      agg_checkov =
        [(''count'', PInt 2),
         (''severities'',
          PDict [(''CRITICAL'', PInt 1), (''HIGH'', PInt 0), (''MEDIUM'', PInt 0),
                 (''LOW'', PInt 0), (''UNKNOWN'', PInt 1)])],
      agg_infracost = [(''monthly_cost'', PFloat 200)],
      agg_top_tfsec =
        [PDict [(''rule'', PStr ''AVD-AWS-0086''), (''severity'', PStr ''HIGH''),
                (''resource'', PStr ''aws_s3_bucket.logs'')],
         PDict [(''rule'', PStr ''AVD-AWS-0132''), (''severity'', PStr ''high''),
                (''resource'', PStr ''aws_s3_bucket.logs'')],
         PDict [(''rule'', PStr ''AVD-AWS-0089''), (''severity'', PStr ''Low''),
                (''resource'', PStr ''aws_s3_bucket.data'')]],
      agg_top_checkov =
        [PDict [(''check_id'', PStr ''CKV_AWS_18''), (''severity'', PNone),
                (''resource'', PStr ''aws_s3_bucket.logs'')],
         PDict [(''check_id'', PStr ''CKV_SECRET_6''), (''severity'', PNone),
                (''resource'', PStr ''main.tf'')]]\<rparr>"

section \<open>Notions used to state the properties\<close>

text \<open>A process outcome that is an exit with code 0.\<close>

definition exit_ok :: "string + int \<times> string \<times> string \<Rightarrow> bool" where
  "exit_ok outcome =
     (case outcome of Inr (returncode, out, err) \<Rightarrow> returncode = 0 | Inl e \<Rightarrow> False)"

text \<open>The names that were looked up on the path, in the order of the lookups.\<close>

definition which_calls :: "event list \<Rightarrow> string list" where
  "which_calls tr = concat (map (\<lambda>e. case e of Which name \<Rightarrow> [name] | Spawn c \<Rightarrow> []) tr)"



text \<open>The summary of a category with no finding.\<close>

definition zero_summary :: "'f pydict" where
  "zero_summary =
     [(''count'', PInt 0),
      (''severities'',
       PDict [(''CRITICAL'', PInt 0), (''HIGH'', PInt 0), (''MEDIUM'', PInt 0),
              (''LOW'', PInt 0), (''UNKNOWN'', PInt 0)])]"





definition failing_llm :: "rat llm" where
  "failing_llm =
     \<lparr>plan_invoke = (\<lambda>sys payload. Inl ''Connection error.''),
      invoke = (\<lambda>sys fs. Inl ''Connection error.'')\<rparr>"

definition empty_plan_llm :: "rat llm" where
  "empty_plan_llm =
     \<lparr>plan_invoke = (\<lambda>sys payload. Inr \<lparr>steps = [], justification = ''Nothing to run.''\<rparr>),
      invoke = (\<lambda>sys fs. Inr [])\<rparr>"

section \<open>Basic facts\<close>

lemma bindE_Inr_iff: "bindE m f = Inr y \<longleftrightarrow> (\<exists>x. m = Inr x \<and> f x = Inr y)"
  by (cases m) (simp_all add: bindE_def)

lemma bindE_Inr [simp]: "bindE (Inr x) f = f x"
  by (simp add: bindE_def)

lemma bindE_Inl [simp]: "bindE (Inl e) f = Inl e"
  by (simp add: bindE_def)

lemma alist_update_fst: "map_of c k = Some v \<Longrightarrow> map fst (AList.update k w c) = map fst c"
  by (induction c) (auto split: if_splits)

lemma alist_update_sum:
  "map_of c k = Some v \<Longrightarrow>
     sum_list (map snd (AList.update k w c)) = sum_list (map snd c) - v + (w::int)"
  by (induction c) (auto split: if_splits)

section \<open>The histogram and the issue count\<close>

lemma incr_Inr:
  assumes "incr c k = Inr c'"
  shows "map fst c' = map fst c \<and> sum_list (map snd c') = sum_list (map snd c) + 1"
proof -
  from assms obtain v where v: "map_of c k = Some v" and c': "c' = AList.update k (v + 1) c"
    by (auto simp: incr_def split: option.splits)
  show ?thesis
    using alist_update_fst [OF v] alist_update_sum [OF v] by (simp add: c')
qed

lemma sev_step_Inr:
  "sev_step k c f = Inr c' \<Longrightarrow>
     map fst c' = map fst c \<and> sum_list (map snd c') = sum_list (map snd c) + 1"
  by (auto simp: sev_step_def bindE_Inr_iff dest: incr_Inr)

lemma foldE_sev_step:
  "foldE (sev_step k) c xs = Inr c' \<Longrightarrow>
     map fst c' = map fst c \<and>
     sum_list (map snd c') = sum_list (map snd c) + int (length xs)"
proof (induction xs arbitrary: c)
  case Nil
  then show ?case by simp
next
  case (Cons x xs)
  from Cons.prems obtain c1
    where s: "sev_step k c x = Inr c1" and r: "foldE (sev_step k) c1 xs = Inr c'"
    by (auto simp: bindE_Inr_iff)
  from sev_step_Inr [OF s] Cons.IH [OF r] show ?case by simp
qed

lemma py_len_iter: "py_len v = Inr n \<Longrightarrow> py_iter v = Inr xs \<Longrightarrow> length xs = n"
  by (cases v) auto

lemma summary_Inr:
  assumes "summary v = Inr d"
  shows "\<exists>n counts.
           d = [(''count'', PInt n),
                (''severities'', PDict (map (\<lambda>kv. (fst kv, PInt (snd kv))) counts))]
           \<and> map fst counts = [''CRITICAL'', ''HIGH'', ''MEDIUM'', ''LOW'', ''UNKNOWN'']
           \<and> sum_list (map snd counts) = n"
proof -
  from assms obtain n counts xs
    where n: "py_len v = Inr n" and xs: "py_iter v = Inr xs"
      and f: "foldE (sev_step ''severity'') init_counts xs = Inr counts"
      and d: "d = [(''count'', PInt (int n)),
                   (''severities'', PDict (map (\<lambda>kv. (fst kv, PInt (snd kv))) counts))]"
    by (auto simp: summary_def sev_count_def bindE_Inr_iff)
  from foldE_sev_step [OF f] py_len_iter [OF n xs]
  have k: "map fst counts = [''CRITICAL'', ''HIGH'', ''MEDIUM'', ''LOW'', ''UNKNOWN'']"
    and t: "sum_list (map snd counts) = int n"
    by (simp_all add: init_counts_def)
  from d k t show ?thesis
    by (intro exI [of _ "int n"] exI [of _ counts]) simp
qed

lemma aggregate_Inr_summaries:
  assumes "aggregate fl results = Inr a"
  shows "\<exists>v w. summary v = Inr (agg_tfsec a) \<and> summary w = Inr (agg_checkov a)"
  using assms by (auto simp: aggregate_def bindE_Inr_iff split: prod.splits)

text \<open>
  C3: in every value that \<^const>\<open>aggregate\<close> returns, the tfsec summary and the checkov
  summary each hold a count and a histogram over the five severity levels, and the values
  of the histogram add up to the count.
\<close>

theorem histogram_sum_is_count:
  assumes "aggregate fl results = Inr a"
  shows "(\<exists>n counts.
            agg_tfsec a =
              [(''count'', PInt n),
               (''severities'', PDict (map (\<lambda>kv. (fst kv, PInt (snd kv))) counts))]
            \<and> map fst counts = [''CRITICAL'', ''HIGH'', ''MEDIUM'', ''LOW'', ''UNKNOWN'']
            \<and> sum_list (map snd counts) = n)
       \<and> (\<exists>n counts.
            agg_checkov a =
              [(''count'', PInt n),
               (''severities'', PDict (map (\<lambda>kv. (fst kv, PInt (snd kv))) counts))]
            \<and> map fst counts = [''CRITICAL'', ''HIGH'', ''MEDIUM'', ''LOW'', ''UNKNOWN'']
            \<and> sum_list (map snd counts) = n)"
proof -
  from aggregate_Inr_summaries [OF assms] obtain v w
    where v: "summary v = Inr (agg_tfsec a)" and w: "summary w = Inr (agg_checkov a)"
    by blast
  from summary_Inr [OF v] summary_Inr [OF w] show ?thesis
    by (rule conjI)
qed

theorem histogram_sum_is_count_witness:
  "aggregate sample_float_of sample_results = Inr sample_agg
   \<and> (\<exists>n counts.
         agg_tfsec sample_agg =
           [(''count'', PInt n),
            (''severities'', PDict (map (\<lambda>kv. (fst kv, PInt (snd kv))) counts))]
         \<and> map fst counts = [''CRITICAL'', ''HIGH'', ''MEDIUM'', ''LOW'', ''UNKNOWN'']
         \<and> sum_list (map snd counts) = n)
   \<and> (\<exists>n counts.
         agg_checkov sample_agg =
           [(''count'', PInt n),
            (''severities'', PDict (map (\<lambda>kv. (fst kv, PInt (snd kv))) counts))]
         \<and> map fst counts = [''CRITICAL'', ''HIGH'', ''MEDIUM'', ''LOW'', ''UNKNOWN'']
         \<and> sum_list (map snd counts) = n)"
proof -
  have h: "aggregate sample_float_of sample_results = Inr sample_agg"
    by code_simp
  from h histogram_sum_is_count [OF h] show ?thesis
    by (rule conjI)
qed

section \<open>An output that tfsec prints and the aggregator does not survive\<close>

text \<open>
  C1: \<^const>\<open>aggregate\<close> raises on a structured output outside the shape it expects.  A
  tfsec run that finds nothing prints \<^verbatim>\<open>{"results": null}\<close>; the dict is truthy, the
  findings become \<^verbatim>\<open>None\<close>, and \<^verbatim>\<open>len(None)\<close> on line 100 raises TypeError.
\<close>

theorem aggregate_raises_on_null_results:
  "aggregate fl
     [(''tfsec'', CmdResult (Some True) None None None None
                    (Some (PDict [(''results'', PNone)])) r)] = Inl TypeError"
  by (simp add: aggregate_def get_result_def tfsec_block_def get_json_def checkov_block_def
      empty_result_def has_stderr_def infracost_block_def summary_def)

section \<open>Severity normalization\<close>







section \<open>The plan selector\<close>

text \<open>
  C4: \<^const>\<open>planner_node\<close> is total and only writes the plan.  With no language model it
  returns the default plan of the four primary tools; when the call raises (a transport
  error, a response that does not validate) or returns a plan with no step, it returns the
  same four steps with a justification that contains the text of the failure.  In every
  case the plan it leaves has at least one step.
\<close>

theorem planner_node_never_fails:
  fixes state :: "'f agent_state"
  shows
  "plan (planner_node None state) =
     Some \<lparr>steps = default_steps,
           justification = ''Deterministic fallback (no LLM/model unavailable).''\<rparr>
   \<and> (plan_invoke l planner_prompt (planner_payload (ctx state)) = Inl e \<longrightarrow>
        plan (planner_node (Some l) state) =
          Some \<lparr>steps = default_steps,
                justification = ''LLM planning failed: '' @ e @ ''. Using default plan.''\<rparr>)
   \<and> (plan_invoke l planner_prompt (planner_payload (ctx state)) = Inr p \<and> steps p = [] \<longrightarrow>
        plan (planner_node (Some l) state) =
          Some \<lparr>steps = default_steps,
                justification = ''LLM planning failed: '' @ ''LLM returned an empty plan.''
                                @ ''. Using default plan.''\<rparr>)
   \<and> (\<exists>q. plan (planner_node llm state) = Some q \<and> steps q \<noteq> [])
   \<and> planner_node llm state = state\<lparr>plan := plan (planner_node llm state)\<rparr>
   \<and> map tool (default_steps :: 'f plan_step list) =
        [T_terraform_plan, T_tfsec, T_checkov, T_infracost]"
proof (intro conjI impI)
  show "\<exists>q. plan (planner_node llm state) = Some q \<and> steps q \<noteq> []"
    by (auto simp: planner_node_def ask_plan_def default_steps_def
        split: option.splits sum.splits if_splits)
qed (simp_all add: planner_node_def ask_plan_def default_steps_def split: option.splits sum.splits)

theorem planner_node_never_fails_witness:
  "plan (planner_node (Some failing_llm) (initial_state ''repo'' None)) =
     Some \<lparr>steps = default_steps,
           justification = ''LLM planning failed: Connection error.. Using default plan.''\<rparr>
   \<and> plan (planner_node (Some empty_plan_llm) (initial_state ''repo'' None)) =
     Some \<lparr>steps = default_steps,
           justification =
             ''LLM planning failed: LLM returned an empty plan.. Using default plan.''\<rparr>"
  using planner_node_never_fails
      [where state = "initial_state ''repo'' None :: rat agent_state" and l = failing_llm
         and e = "''Connection error.''"]
    planner_node_never_fails
      [where state = "initial_state ''repo'' None :: rat agent_state" and l = empty_plan_llm
         and p = "\<lparr>steps = [], justification = ''Nothing to run.''\<rparr>"]
  by (simp add: failing_llm_def empty_plan_llm_def)

section \<open>The three steps of terraform_plan\<close>

lemma run_ok:
  "subprocess_run W (world st) repo c = (outcome, w') \<Longrightarrow>
     ok (fst (run W c repo st :: 'f cmd_result \<times> 'w machine)) = Some (exit_ok outcome)
     \<and> snd (run W c repo st :: 'f cmd_result \<times> 'w machine)
         = \<lparr>world = w', trace = trace st @ [Spawn c]\<rparr>"
  by (auto simp: run_def exit_ok_def split: sum.splits)

lemma ok_parsed: "ok r = Some b \<Longrightarrow> ok (parsed B r) = Some b"
  by (simp add: parsed_def)

text \<open>
  C9: when terraform is on the path, \<^const>\<open>terraform_plan\<close> runs init, plan and show in
  this order.  If init does not exit with 0 the result is not ok and nothing else is
  spawned; if plan does not exit with 0 the result is not ok and show is not spawned; if
  both succeed the result is ok exactly when show exits with 0.
\<close>

theorem terraform_plan_short_circuit:
  fixes B :: "'f builtins"
  assumes "on_path W (world st) ''terraform''"
    and "subprocess_run W (world st) repo [''terraform'', ''init'', ''-backend=false''] = (oa, wa)"
    and "subprocess_run W wa repo [''terraform'', ''plan'', ''-no-color'', ''-out'', ''tf.plan'']
           = (ob, wb)"
    and "subprocess_run W wb repo [''terraform'', ''show'', ''-json'', ''tf.plan''] = (oc, wc)"
  shows
    "(\<not> exit_ok oa \<longrightarrow>
        ok (fst (terraform_plan W B repo st)) = Some False
        \<and> snd (terraform_plan W B repo st) =
            \<lparr>world = wa,
             trace = trace st @ [Which ''terraform'',
                                 Spawn [''terraform'', ''init'', ''-backend=false'']]\<rparr>)
     \<and> (exit_ok oa \<and> \<not> exit_ok ob \<longrightarrow>
        ok (fst (terraform_plan W B repo st)) = Some False
        \<and> snd (terraform_plan W B repo st) =
            \<lparr>world = wb,
             trace = trace st @ [Which ''terraform'',
                                 Spawn [''terraform'', ''init'', ''-backend=false''],
                                 Spawn [''terraform'', ''plan'', ''-no-color'', ''-out'', ''tf.plan'']]\<rparr>)
     \<and> (exit_ok oa \<and> exit_ok ob \<longrightarrow>
        ok (fst (terraform_plan W B repo st)) = Some (exit_ok oc)
        \<and> snd (terraform_plan W B repo st) =
            \<lparr>world = wc,
             trace = trace st @ [Which ''terraform'',
                                 Spawn [''terraform'', ''init'', ''-backend=false''],
                                 Spawn [''terraform'', ''plan'', ''-no-color'', ''-out'', ''tf.plan''],
                                 Spawn [''terraform'', ''show'', ''-json'', ''tf.plan'']]\<rparr>)"
  using assms
  by (auto simp: terraform_plan_def which_def run_def exit_ok_def parsed_def split: sum.splits)

theorem terraform_plan_short_circuit_witness:
  "on_path full_os 0 ''terraform''
   \<and> ok (fst (terraform_plan full_os sample_builtins ''repo'' \<lparr>world = 0, trace = []\<rparr>))
       = Some False
   \<and> snd (terraform_plan full_os sample_builtins ''repo'' \<lparr>world = 0, trace = []\<rparr>)
       = \<lparr>world = 2,
          trace = [Which ''terraform'',
                   Spawn [''terraform'', ''init'', ''-backend=false''],
                   Spawn [''terraform'', ''plan'', ''-no-color'', ''-out'', ''tf.plan'']]\<rparr>"
  using terraform_plan_short_circuit
    [where W = full_os and st = "\<lparr>world = 0, trace = []\<rparr>" and repo = "''repo''"
       and oa = "Inr (0, ''{}'', [])" and wa = 1
       and ob = "Inr (1, [], ''Error: no configuration'')" and wb = 2
       and oc = "Inr (0, ''{}'', [])" and wc = 3 and B = sample_builtins]
  by (simp add: full_os_def exit_ok_def)

section \<open>The order of execution\<close>

lemma which_calls_append [simp]: "which_calls (xs @ ys) = which_calls xs @ which_calls ys"
  by (simp add: which_calls_def)

lemma which_calls_simps [simp]:
  "which_calls [] = []" "which_calls (Which n # tr) = n # which_calls tr"
  "which_calls (Spawn c # tr) = which_calls tr"
  by (simp_all add: which_calls_def)

lemma run_trace:
  "trace (snd (run W c repo st :: 'f cmd_result \<times> 'w machine)) = trace st @ [Spawn c]"
  by (simp add: run_def case_prod_beta)













section \<open>Tools without a runner\<close>

lemma run_step_skip:
  "tool s \<in> {T_conftest, T_gitleaks} \<Longrightarrow> run_step W B repo acc s = acc"
  by (cases acc) (auto simp: run_step_def)

lemma foldl_filter_noop:
  "(\<And>x a. \<not> P x \<Longrightarrow> g a x = a) \<Longrightarrow> foldl g a (filter P xs) = foldl g a xs"
  by (induction xs arbitrary: a) simp_all

lemma run_tools_filter:
  "run_tools W B repo (filter (\<lambda>s. tool s \<notin> {T_conftest, T_gitleaks}) ss) st
     = run_tools W B repo ss st"
proof -
  have "ordered (filter (\<lambda>s. tool s \<notin> {T_conftest, T_gitleaks}) ss)
          = filter (\<lambda>s. tool s \<notin> {T_conftest, T_gitleaks}) (ordered ss)"
    by (simp add: ordered_def filter_sort)
  then show ?thesis
    unfolding run_tools_def
    using foldl_filter_noop
      [of "\<lambda>s. tool s \<notin> {T_conftest, T_gitleaks}" "run_step W B repo" "([], st)" "ordered ss"]
    by (simp add: run_step_skip)
qed

lemma update_key_set: "set (map fst (AList.update k v rs)) = insert k (set (map fst rs))"
  by (induction rs) auto

lemma run_step_keys:
  "set (map fst (fst (run_step W B repo (rs, st) s)))
     \<subseteq> set (map fst rs) \<union> {''terraform'', ''tfsec'', ''checkov'', ''infracost''}"
  unfolding run_step_def Let_def case_prod_beta
  by (simp add: update_key_set del: set_map) blast

lemma foldl_run_step_keys:
  "set (map fst (fst (foldl (run_step W B repo) (rs, st) xs)))
     \<subseteq> set (map fst rs) \<union> {''terraform'', ''tfsec'', ''checkov'', ''infracost''}"
proof (induction xs arbitrary: rs st)
  case Nil
  then show ?case by auto
next
  case (Cons x xs)
  obtain rs' st' where r: "run_step W B repo (rs, st) x = (rs', st')"
    by (cases "run_step W B repo (rs, st) x")
  from run_step_keys [of W B repo rs st x] r
  have "set (map fst rs') \<subseteq> set (map fst rs) \<union> {''terraform'', ''tfsec'', ''checkov'', ''infracost''}"
    by simp
  with Cons.IH [of rs' st'] r show ?case by auto
qed

lemma run_tools_only_skipped:
  assumes "\<forall>s\<in>set ss. tool s \<in> {T_conftest, T_gitleaks}"
  shows "run_tools W B repo ss st = ([], st)"
proof -
  from assms have "filter (\<lambda>s. tool s \<notin> {T_conftest, T_gitleaks}) ss = []"
    by (induction ss) auto
  with run_tools_filter [of W B repo ss st] show ?thesis
    by (simp add: run_tools_def ordered_def)
qed

lemma summary_empty: "summary (PList []) = Inr zero_summary"
  by (simp add: summary_def sev_count_def init_counts_def zero_summary_def)

lemma top_empty: "top_issues a b (PList []) = Inr []"
  by (simp add: top_issues_def)

lemma aggregate_empty:
  "aggregate fl [] =
     Inr \<lparr>agg_warnings = [], agg_tfsec = zero_summary, agg_checkov = zero_summary,
          agg_infracost = [(''monthly_cost'', PNone)], agg_top_tfsec = [],
          agg_top_checkov = []\<rparr>"
  by (simp add: aggregate_def get_result_def tfsec_block_def checkov_block_def
      infracost_block_def get_json_def has_stderr_def empty_result_def summary_empty top_empty
      cost_value_def)

lemma tools_node_filter:
  fixes B :: "'f::{zero,plus} builtins"
  shows "map_sum id findings
       (fst (tools_node W B st (state\<lparr>plan := Some \<lparr>steps = ss, justification = j\<rparr>\<rparr>)))
     = map_sum id findings
         (fst (tools_node W B st
            (state\<lparr>plan := Some \<lparr>steps = filter (\<lambda>s. tool s \<notin> {T_conftest, T_gitleaks}) ss,
                                 justification = j\<rparr>\<rparr>)))
   \<and> snd (tools_node W B st (state\<lparr>plan := Some \<lparr>steps = ss, justification = j\<rparr>\<rparr>))
     = snd (tools_node W B st
            (state\<lparr>plan := Some \<lparr>steps = filter (\<lambda>s. tool s \<notin> {T_conftest, T_gitleaks}) ss,
                                 justification = j\<rparr>\<rparr>))"
  by (simp add: tools_node_def run_tools_filter [simplified] case_prod_unfold
      split: sum.splits)

text \<open>
  C10: a conftest or gitleaks step changes neither the results nor the machine (no lookup,
  no process); the executor does on a plan what it does on the plan without these steps;
  the keys of the results are among terraform, tfsec, checkov and infracost; a plan of
  such steps alone gives empty results, the zero findings and no warning; and the findings
  (so the warnings) and the machine after \<^const>\<open>tools_node\<close> are those of the plan without
  these steps.
\<close>

theorem unhandled_tools_are_skipped:
  fixes B :: "'f::{zero,plus} builtins"
  shows
  "(tool s \<in> {T_conftest, T_gitleaks} \<longrightarrow> run_step W B repo acc s = acc)
   \<and> run_tools W B repo ss st =
       run_tools W B repo (filter (\<lambda>s. tool s \<notin> {T_conftest, T_gitleaks}) ss) st
   \<and> set (map fst (fst (run_tools W B repo ss st)))
       \<subseteq> {''terraform'', ''tfsec'', ''checkov'', ''infracost''}
   \<and> ((\<forall>s\<in>set ss. tool s \<in> {T_conftest, T_gitleaks}) \<longrightarrow>
        tools_node W B st (state\<lparr>plan := Some \<lparr>steps = ss, justification = j\<rparr>\<rparr>) =
          (Inr (state\<lparr>plan := Some \<lparr>steps = ss, justification = j\<rparr>,
                      findings :=
                        \<lparr>tfsec = zero_summary, checkov = zero_summary,
                         terraform = empty_result, conftest = [],
                         infracost = [(''monthly_cost'', PNone)], gitleaks = [],
                         warnings = []\<rparr>\<rparr>),
           st))
   \<and> map_sum id findings
       (fst (tools_node W B st (state\<lparr>plan := Some \<lparr>steps = ss, justification = j\<rparr>\<rparr>)))
     = map_sum id findings
         (fst (tools_node W B st
            (state\<lparr>plan := Some \<lparr>steps = filter (\<lambda>s. tool s \<notin> {T_conftest, T_gitleaks}) ss,
                                 justification = j\<rparr>\<rparr>)))
   \<and> snd (tools_node W B st (state\<lparr>plan := Some \<lparr>steps = ss, justification = j\<rparr>\<rparr>))
     = snd (tools_node W B st
            (state\<lparr>plan := Some \<lparr>steps = filter (\<lambda>s. tool s \<notin> {T_conftest, T_gitleaks}) ss,
                                 justification = j\<rparr>\<rparr>))"
proof (intro conjI impI)
  show "map_sum id findings
       (fst (tools_node W B st (state\<lparr>plan := Some \<lparr>steps = ss, justification = j\<rparr>\<rparr>)))
     = map_sum id findings
         (fst (tools_node W B st
            (state\<lparr>plan := Some \<lparr>steps = filter (\<lambda>s. tool s \<notin> {T_conftest, T_gitleaks}) ss,
                                 justification = j\<rparr>\<rparr>)))"
    using tools_node_filter [where W = W and B = B and st = st and state = state and ss = ss
        and j = j]
    by (rule conjunct1)
  show "snd (tools_node W B st (state\<lparr>plan := Some \<lparr>steps = ss, justification = j\<rparr>\<rparr>))
     = snd (tools_node W B st
            (state\<lparr>plan := Some \<lparr>steps = filter (\<lambda>s. tool s \<notin> {T_conftest, T_gitleaks}) ss,
                                 justification = j\<rparr>\<rparr>))"
    using tools_node_filter [where W = W and B = B and st = st and state = state and ss = ss
        and j = j]
    by (rule conjunct2)
  show "run_tools W B repo ss st =
       run_tools W B repo (filter (\<lambda>s. tool s \<notin> {T_conftest, T_gitleaks}) ss) st"
    by (rule run_tools_filter [symmetric])
  show "set (map fst (fst (run_tools W B repo ss st)))
       \<subseteq> {''terraform'', ''tfsec'', ''checkov'', ''infracost''}"
    using foldl_run_step_keys [of W B repo "[]" st "ordered ss"]
    by (simp add: run_tools_def)
next
  assume "tool s \<in> {T_conftest, T_gitleaks}"
  then show "run_step W B repo acc s = acc" by (rule run_step_skip)
next
  assume "\<forall>s\<in>set ss. tool s \<in> {T_conftest, T_gitleaks}"
  then have "run_tools W B (repo_dir (ctx state)) ss st = ([], st)"
    by (rule run_tools_only_skipped)
  then show "tools_node W B st (state\<lparr>plan := Some \<lparr>steps = ss, justification = j\<rparr>\<rparr>) =
          (Inr (state\<lparr>plan := Some \<lparr>steps = ss, justification = j\<rparr>,
                      findings :=
                        \<lparr>tfsec = zero_summary, checkov = zero_summary,
                         terraform = empty_result, conftest = [],
                         infracost = [(''monthly_cost'', PNone)], gitleaks = [],
                         warnings = []\<rparr>\<rparr>),
           st)"
    by (simp add: tools_node_def aggregate_empty get_result_def)
qed

theorem unhandled_tools_are_skipped_witness:
  "tools_node bare_os sample_builtins \<lparr>world = (), trace = []\<rparr>
     ((initial_state ''repo'' None)
        \<lparr>plan := Some \<lparr>steps = [\<lparr>tool = T_conftest, args = []\<rparr>, \<lparr>tool = T_gitleaks, args = []\<rparr>],
                         justification = ''Policy and secrets only.''\<rparr>\<rparr>)
   = (Inr ((initial_state ''repo'' None)
        \<lparr>plan := Some \<lparr>steps = [\<lparr>tool = T_conftest, args = []\<rparr>, \<lparr>tool = T_gitleaks, args = []\<rparr>],
                         justification = ''Policy and secrets only.''\<rparr>,
         findings :=
           \<lparr>tfsec = zero_summary, checkov = zero_summary, terraform = empty_result,
            conftest = [], infracost = [(''monthly_cost'', PNone)], gitleaks = [],
            warnings = []\<rparr>\<rparr>),
      \<lparr>world = (), trace = []\<rparr>)"
  using unhandled_tools_are_skipped
    [where W = bare_os and B = sample_builtins and st = "\<lparr>world = (), trace = []\<rparr>"
       and state = "initial_state ''repo'' None"
       and ss = "[\<lparr>tool = T_conftest, args = []\<rparr>, \<lparr>tool = T_gitleaks, args = []\<rparr>]"
       and j = "''Policy and secrets only.''"]
  by simp

section \<open>No tool installed\<close>











section \<open>Cost aggregation\<close>









lemma aggregate_Inr_cost:
  assumes "aggregate fl rs = Inr a"
  shows "\<exists>t w w'. infracost_block fl (get_result rs ''infracost'') w = Inr (t, w')
           \<and> agg_infracost a = [(''monthly_cost'', cost_value t)]"
proof -
  from assms obtain t w w'
    where "infracost_block fl (get_result rs ''infracost'') w = Inr (t, w')"
      and "agg_infracost a = [(''monthly_cost'', cost_value t)]"
    by (auto simp: aggregate_def bindE_Inr_iff split: prod.splits)
  then show ?thesis
    by (intro exI [of _ t] exI [of _ w] exI [of _ w'] conjI)
qed





section \<open>Tools that left no structured output\<close>

text \<open>
  When the three results hold no truthy \<^verbatim>\<open>json\<close> (the tool is absent from the mapping,
  was not found, or printed nothing that parses), \<^const>\<open>aggregate\<close> returns, and every
  summary is the zero summary.
\<close>

lemma infracost_block_falsy:
  "\<not> truthy (get_json infr) \<Longrightarrow>
     infracost_block fl infr w =
       Inr (None, if has_stderr infr then w @ [''infracost: '' @ get_stderr infr] else w)"
  by (cases "get_json infr") (simp_all add: infracost_block_def)

lemma aggregate_without_json:
  assumes "\<not> truthy (get_json (get_result rs ''tfsec''))"
    and "\<not> truthy (get_json (get_result rs ''checkov''))"
    and "\<not> truthy (get_json (get_result rs ''infracost''))"
  shows "\<exists>w. aggregate fl rs =
           Inr \<lparr>agg_warnings = w, agg_tfsec = zero_summary, agg_checkov = zero_summary,
                agg_infracost = [(''monthly_cost'', PNone)], agg_top_tfsec = [],
                agg_top_checkov = []\<rparr>"
  using assms
  by (simp add: aggregate_def tfsec_block_def checkov_block_def infracost_block_falsy
      summary_empty top_empty cost_value_def)

section \<open>The deterministic report\<close>

text \<open>
  The findings that \<^const>\<open>tools_node\<close> writes always hold the key \<^verbatim>\<open>monthly_cost\<close>, so the
  cost line of the report formats its value, whatever it is.
\<close>

lemma tools_node_cost_key:
  assumes "fst (tools_node W B st state) = Inr s"
  shows "\<exists>v. infracost (findings s) = [(''monthly_cost'', v)]"
proof -
  from assms obtain rs a where a: "aggregate (float_of B) rs = Inr a"
    and s: "infracost (findings s) = agg_infracost a"
    by (auto simp: tools_node_def case_prod_unfold split: sum.splits)
  from aggregate_Inr_cost [OF a] s show ?thesis by auto
qed

lemma report_cost_line:
  "infracost fs = [(''monthly_cost'', v)] \<Longrightarrow>
     report_lines B fs ! 3 = ''**Estimated Monthly Cost**: '' @ py_str B v"
  by (simp add: report_lines_def dict_get_def)

text \<open>The report lines of the sample run.\<close>

lemma report_of_sample_run:
  "report_lines sample_builtins
     (empty_findings\<lparr>tfsec := agg_tfsec sample_agg, checkov := agg_checkov sample_agg,
                      infracost := agg_infracost sample_agg\<rparr>) =
     [''# InfraGuardian Report (deterministic)'',
      ''**tfsec**: 3 issues '' @ em_dash
        @ '' {'CRITICAL': 0, 'HIGH': 2, 'MEDIUM': 0, 'LOW': 1, 'UNKNOWN': 0}'',
      ''**Checkov**: 2 issues '' @ em_dash
        @ '' {'CRITICAL': 1, 'HIGH': 0, 'MEDIUM': 0, 'LOW': 0, 'UNKNOWN': 1}'',
      ''**Estimated Monthly Cost**: 200.0'']"
  by code_simp

text \<open>
  C5: the report of a run with no language model and no tool installed.  The heading, the
  two category lines and the line of warnings joined by \<^verbatim>\<open>"; "\<close> are as the template
  says, but the cost line reads \<^verbatim>\<open>None\<close>: \<^const>\<open>aggregate\<close> always sets the key
  \<^verbatim>\<open>monthly_cost\<close>, to \<^verbatim>\<open>None\<close> when the cost is absent, so the default
  \<^verbatim>\<open>'unavailable'\<close> of line 125 is never taken.
\<close>

theorem absent_cost_is_reported_as_None:
  "map_sum id (map_option markdown \<circ> synthesis)
     (fst (run_graph bare_os sample_builtins None \<lparr>world = (), trace = []\<rparr>
             (initial_state ''repo'' None)))
   = Inr (Some (join [CHR 0x0A, CHR 0x0A]
       [''# InfraGuardian Report (deterministic)'',
        ''**tfsec**: 0 issues '' @ em_dash
          @ '' {'CRITICAL': 0, 'HIGH': 0, 'MEDIUM': 0, 'LOW': 0, 'UNKNOWN': 0}'',
        ''**Checkov**: 0 issues '' @ em_dash
          @ '' {'CRITICAL': 0, 'HIGH': 0, 'MEDIUM': 0, 'LOW': 0, 'UNKNOWN': 0}'',
        ''**Estimated Monthly Cost**: None'',
        ''> Warnings: tfsec: tfsec not found; checkov: checkov not found; ''
          @ ''infracost: infracost not found'']))"
  by code_simp

end
